theory Spec2Isabelle
  imports Complex_Main "HOL-Library.Sublist"
begin

section \<open>Common ground of the two tools\<close>

text \<open>
  The repository holds two Python command-line tools, \<^verbatim>\<open>fetchmarketdata.py\<close> (quotes and
  candles as JSON) and \<^verbatim>\<open>fetch_news.py\<close> (a text report of RSI, news and sentiment).
  Both talk to the yfinance provider, which is taken here as a parameter: a record of
  functions that either raise or return data.

  A raised \<^verbatim>\<open>Exception\<close> is identified with its text \<^verbatim>\<open>str(e)\<close>, the only part
  of it the programs use. A string is the list of its characters, a character being a
  code point below 256. A finite Python float is read as the rational number it denotes.
  What Python's library computes from the Unicode tables (\<^verbatim>\<open>str.upper\<close>) or in
  double-precision arithmetic (the sum and the quotient of two floats) is a parameter
  too: the theorems hold whatever these functions return.
\<close>

type_synonym exn = string

subsection \<open>Strings\<close>

text \<open>\<^verbatim>\<open>sep.join(xs)\<close>\<close>

fun join :: "string \<Rightarrow> string list \<Rightarrow> string" where
  "join sep [] = []"
| "join sep [x] = x"
| "join sep (x # y # ys) = x @ sep @ join sep (y # ys)"

definition sq :: string where
  "sq = [CHR 0x27]"

text \<open>\<^verbatim>\<open>str(list(d.keys()))\<close> for a dictionary whose keys are plain words.\<close>

definition keys_repr :: "(string \<times> 'v) list \<Rightarrow> string" where
  "keys_repr d = ''['' @ join '', '' (map (\<lambda>kv. sq @ fst kv @ sq) d) @ '']''"

text \<open>Decimal digits of a natural number, and the same padded with zeros on the left.\<close>

fun nat_str :: "nat \<Rightarrow> string" where
  "nat_str n =
     (if n < 10 then [''0123456789'' ! n]
      else nat_str (n div 10) @ [''0123456789'' ! (n mod 10)])"

definition pad :: "nat \<Rightarrow> nat \<Rightarrow> string" where
  "pad w n = replicate (w - length (nat_str n)) (CHR ''0'') @ nat_str n"

subsection \<open>Rounding\<close>

text \<open>
  \<^verbatim>\<open>round(x, 4)\<close> on a float: the decimal with four places nearest to the value of
  \<open>x\<close>, a tie going to the even last digit. This is the number the JSON text shows.
\<close>

definition round_half_even :: "rat \<Rightarrow> int" where
  "round_half_even x =
     (let f = \<lfloor>x\<rfloor>; d = x - of_int f in
      if d < 1 / 2 then f
      else if 1 / 2 < d then f + 1
      else if even f then f else f + 1)"

definition round4 :: "rat \<Rightarrow> rat" where
  "round4 x = of_int (round_half_even (x * 10000)) / 10000"

subsection \<open>JSON values\<close>

datatype json =
    JNull
  | JBool bool
  | JInt int
  | JNum rat
  | JStr string
  | JArr "json list"
  | JObj "(string \<times> json) list"

definition jfield :: "json \<Rightarrow> string \<Rightarrow> json option" where
  "jfield j k = (case j of JObj kvs \<Rightarrow> map_of kvs k | _ \<Rightarrow> None)"

section \<open>The market data tool: \<^verbatim>\<open>fetchmarketdata.py\<close>\<close>

subsection \<open>Tables\<close>

definition TF_TO_YF_INTERVAL :: "(string \<times> string) list" where
  "TF_TO_YF_INTERVAL =
     [(''1m'', ''1m''), (''5m'', ''5m''), (''15m'', ''15m''), (''1h'', ''1h''),
      (''1d'', ''1d''), (''1w'', ''1wk''), (''1mo'', ''1mo'')]"

definition RANGE_TO_YF_PERIOD :: "(string \<times> string) list" where
  "RANGE_TO_YF_PERIOD =
     [(''7d'', ''7d''), (''30d'', ''1mo''), (''90d'', ''3mo''), (''180d'', ''6mo''),
      (''1y'', ''1y''), (''2y'', ''2y'')]"

text \<open>A \<^verbatim>\<open>timedelta\<close> is a number of seconds.\<close>

definition timedelta_days :: "int \<Rightarrow> int" where
  "timedelta_days n = n * 86400"

definition RANGE_TO_TIMEDELTA :: "(string \<times> int) list" where
  "RANGE_TO_TIMEDELTA =
     [(''7d'', timedelta_days 7), (''30d'', timedelta_days 30), (''90d'', timedelta_days 90),
      (''180d'', timedelta_days 180), (''1y'', timedelta_days 365), (''2y'', timedelta_days 730)]"

subsection \<open>Dates\<close>

text \<open>
  An aware UTC \<^verbatim>\<open>datetime\<close> is its number of seconds since 1970-01-01T00:00:00Z.
  The type holds the years 1 to 9999; outside of them \<^verbatim>\<open>fromtimestamp\<close> and the
  subtraction of a \<^verbatim>\<open>timedelta\<close> raise.
\<close>

definition DATETIME_MIN :: int where
  "DATETIME_MIN = - 62135596800"

definition DATETIME_MAX :: int where
  "DATETIME_MAX = 253402300799"

definition in_datetime_range :: "int \<Rightarrow> bool" where
  "in_datetime_range t \<longleftrightarrow> DATETIME_MIN \<le> t \<and> t \<le> DATETIME_MAX"

text \<open>Year, month and day of the proleptic Gregorian calendar from a day number (0 is 1970-01-01).\<close>

definition civil_from_days :: "int \<Rightarrow> int \<times> int \<times> int" where
  "civil_from_days days =
     (let z = days + 719468;
          era = z div 146097;
          doe = z - era * 146097;
          yoe = (doe - doe div 1460 + doe div 36524 - doe div 146096) div 365;
          doy = doe - (365 * yoe + yoe div 4 - yoe div 100);
          mp = (5 * doy + 2) div 153;
          d = doy - (153 * mp + 2) div 5 + 1;
          m = (if mp < 10 then mp + 3 else mp - 9);
          y = yoe + era * 400 + (if m \<le> 2 then 1 else 0)
      in (y, m, d))"

text \<open>The text \<^verbatim>\<open>YYYY-MM-DD\<close> of a day number. The year is shown with four digits;
  for the years before 1000 the C library behind \<^verbatim>\<open>strftime\<close> decides the padding.\<close>

definition ymd :: "int \<Rightarrow> string" where
  "ymd day =
     (case civil_from_days day of
        (y, m, d) \<Rightarrow> pad 4 (nat y) @ ''-'' @ pad 2 (nat m) @ ''-'' @ pad 2 (nat d))"

text \<open>\<^verbatim>\<open>dt.strftime("%Y-%m-%d")\<close>: the day the instant lies in; the time of day is dropped.\<close>

definition strftime_ymd :: "int \<Rightarrow> string" where
  "strftime_ymd dt = ymd (dt div 86400)"

subsection \<open>The provider and the run-time library\<close>

text \<open>One row of the data frame \<^verbatim>\<open>ticker.history\<close> returns; \<open>bar_time\<close> is
  \<^verbatim>\<open>int(idx.timestamp())\<close> of its index.\<close>

record bar =
  bar_time :: int
  bar_open :: rat
  bar_high :: rat
  bar_low :: rat
  bar_close :: rat
  bar_volume :: int

text \<open>The keyword arguments of a call of \<^verbatim>\<open>ticker.history\<close>:
  \<^verbatim>\<open>history(period=p)\<close>, \<^verbatim>\<open>history(period=p, interval=i)\<close> and
  \<^verbatim>\<open>history(start=s, end=e, interval=i)\<close>.\<close>

datatype request =
    Period string "string option"
  | Window string string string

record env =
  py_upper :: "string \<Rightarrow> string"
  py_int :: "string \<Rightarrow> exn + int"
  py_int_float :: "string \<Rightarrow> exn + int"
  datetime_error :: "int \<Rightarrow> exn"
  fast_last_price :: "string \<Rightarrow> exn + rat option"
  history :: "string \<Rightarrow> request \<Rightarrow> exn + bar list"
  utc_now :: string

text \<open>
  \<^item> \<open>py_upper s\<close> is \<^verbatim>\<open>s.upper()\<close>;
  \<^item> \<open>py_int s\<close> is \<^verbatim>\<open>int(s)\<close> and \<open>py_int_float s\<close> is \<^verbatim>\<open>int(float(s))\<close>
    on a string, \<open>Inl\<close> when Python raises;
  \<^item> \<open>datetime_error t\<close> is the text of the exception \<^verbatim>\<open>datetime\<close> raises for a
    value \<open>t\<close> outside its range;
  \<^item> \<open>fast_last_price sym\<close> is \<^verbatim>\<open>getattr(yf.Ticker(sym).fast_info, "last_price", None)\<close>;
  \<^item> \<open>history sym req\<close> is \<^verbatim>\<open>yf.Ticker(sym).history(...)\<close>, the rows in the order of
    the data frame;
  \<^item> \<open>utc_now\<close> is \<^verbatim>\<open>datetime.now(timezone.utc).strftime("%Y-%m-%dT%H:%M:%SZ")\<close>.
\<close>

subsection \<open>What a run leaves behind\<close>

datatype outcome =
    Printed json
  | Failed json
  | Uncaught exn

text \<open>
  \<^item> \<open>Printed j\<close>: \<^verbatim>\<open>print(json.dumps(j))\<close>, then the command returns;
  \<^item> \<open>Failed j\<close>: \<^verbatim>\<open>error_json\<close> printed \<open>j\<close> and called \<^verbatim>\<open>sys.exit(1)\<close>;
  \<^item> \<open>Uncaught e\<close>: an exception left the program: a traceback on stderr, nothing on
    stdout, and the interpreter exits with code 1.
\<close>

fun stdout :: "outcome \<Rightarrow> json list" where
  "stdout (Printed j) = [j]"
| "stdout (Failed j) = [j]"
| "stdout (Uncaught e) = []"

fun exit_code :: "outcome \<Rightarrow> int" where
  "exit_code (Printed j) = 0"
| "exit_code (Failed j) = 1"
| "exit_code (Uncaught e) = 1"

definition error_json :: "string \<Rightarrow> outcome" where
  "error_json msg = Failed (JObj [(''ok'', JBool False), (''error'', JStr msg)])"

subsection \<open>\<^verbatim>\<open>cmd_quote\<close>\<close>

text \<open>
  The body of a \<^verbatim>\<open>try\<close> block is a value of \<open>exn + outcome\<close>: \<open>Inl e\<close> when an
  \<^verbatim>\<open>Exception\<close> is raised in it, which the handler receives, and \<open>Inr r\<close> when it
  prints its result or calls \<^verbatim>\<open>error_json\<close>, whose \<^verbatim>\<open>SystemExit\<close> the handler
  \<^verbatim>\<open>except Exception\<close> lets through.
\<close>

definition quote_body :: "env \<Rightarrow> string \<Rightarrow> exn + outcome" where
  "quote_body e symbol =
     (let finish = (\<lambda>price.
            Printed (JObj [(''ok'', JBool True), (''symbol'', JStr symbol),
                           (''price'', JNum (round4 price)),
                           (''timestampUtc'', JStr (utc_now e))]))
      in case fast_last_price e symbol of
           Inl x \<Rightarrow> Inl x
         | Inr (Some price) \<Rightarrow> Inr (finish price)
         | Inr None \<Rightarrow>
             (case history e symbol (Period ''1d'' None) of
                Inl x \<Rightarrow> Inl x
              | Inr hist \<Rightarrow>
                  if hist = [] then Inr (error_json (''No quote data found for '' @ symbol))
                  else Inr (finish (bar_close (last hist)))))"

definition cmd_quote :: "env \<Rightarrow> string \<Rightarrow> outcome" where
  "cmd_quote e s =
     (let symbol = py_upper e s
      in case quote_body e symbol of
           Inl x \<Rightarrow> error_json (''Quote fetch failed for '' @ symbol @ '': '' @ x)
         | Inr r \<Rightarrow> r)"

subsection \<open>\<^verbatim>\<open>cmd_candles\<close>\<close>

record candles_args =
  arg_symbol :: string
  arg_tf :: string
  arg_range :: string
  arg_limit :: string
  arg_to :: "string option"

text \<open>\<^verbatim>\<open>xs.iloc[s:]\<close>: a negative start counts from the end, and both ends are clipped.\<close>

definition iloc_from :: "int \<Rightarrow> 'a list \<Rightarrow> 'a list" where
  "iloc_from s xs =
     (let n = int (length xs);
          i = (if s < 0 then max 0 (s + n) else min s n)
      in drop (nat i) xs)"

definition candle :: "bar \<Rightarrow> json" where
  "candle b =
     JObj [(''time'', JInt (bar_time b)),
           (''open'', JNum (round4 (bar_open b))),
           (''high'', JNum (round4 (bar_high b))),
           (''low'', JNum (round4 (bar_low b))),
           (''close'', JNum (round4 (bar_close b))),
           (''volume'', JInt (bar_volume b))]"

text \<open>The arguments \<^verbatim>\<open>cmd_candles\<close> gives to \<^verbatim>\<open>ticker.history\<close>. A \<^verbatim>\<open>--to\<close> that is
  absent or the empty string selects the standard mode.\<close>

definition candles_request :: "env \<Rightarrow> string \<Rightarrow> string option \<Rightarrow> string \<Rightarrow> exn + request" where
  "candles_request e range_code to_ts yf_interval =
     (if to_ts \<noteq> None \<and> to_ts \<noteq> Some [] then
        (case py_int_float e (the to_ts) of
           Inl x \<Rightarrow> Inl x
         | Inr to_unix \<Rightarrow>
             if \<not> in_datetime_range to_unix then Inl (datetime_error e to_unix)
             else
               (let end_dt = to_unix
                in case map_of RANGE_TO_TIMEDELTA range_code of
                     None \<Rightarrow> Inl (sq @ range_code @ sq)
                   | Some delta \<Rightarrow>
                       (let start_dt = end_dt - delta
                        in if \<not> in_datetime_range start_dt then Inl (datetime_error e start_dt)
                           else Inr (Window (strftime_ymd start_dt) (strftime_ymd end_dt)
                                       yf_interval))))
      else
        (case map_of RANGE_TO_YF_PERIOD range_code of
           None \<Rightarrow> Inl (sq @ range_code @ sq)
         | Some yf_period \<Rightarrow> Inr (Period yf_period (Some yf_interval))))"

text \<open>"Trim to limit (keep most recent)": \<^verbatim>\<open>if len(hist) > limit: hist = hist.iloc[-limit:]\<close>.\<close>

definition trim_to_limit :: "int \<Rightarrow> 'a list \<Rightarrow> 'a list" where
  "trim_to_limit limit hist =
     (if int (length hist) > limit then iloc_from (- limit) hist else hist)"

text \<open>The data frame \<^verbatim>\<open>hist\<close> of \<^verbatim>\<open>cmd_candles\<close>: the provider's answer to that call.\<close>

definition candles_hist ::
    "env \<Rightarrow> string \<Rightarrow> string \<Rightarrow> string option \<Rightarrow> string \<Rightarrow> exn + bar list" where
  "candles_hist e symbol range_code to_ts yf_interval =
     (case candles_request e range_code to_ts yf_interval of
        Inl x \<Rightarrow> Inl x
      | Inr req \<Rightarrow> history e symbol req)"

text \<open>The rest of the \<^verbatim>\<open>try\<close> block, from what the call of \<^verbatim>\<open>ticker.history\<close> gave.\<close>

definition candles_body ::
    "string \<Rightarrow> string \<Rightarrow> string \<Rightarrow> int \<Rightarrow> exn + bar list \<Rightarrow> exn + outcome" where
  "candles_body symbol tf range_code limit fetched =
     (case fetched of
        Inl x \<Rightarrow> Inl x
      | Inr hist \<Rightarrow>
          if hist = [] then
            Inr (error_json (''No candle data returned for '' @ symbol @ '' tf='' @ tf
                               @ '' range='' @ range_code))
          else
            (let hist' = trim_to_limit limit hist;
                 candles = map candle hist';
                 next_to = (case candles of
                              [] \<Rightarrow> JNull
                            | c # cs \<Rightarrow> the (jfield c ''time''))
             in Inr (Printed (JObj [(''ok'', JBool True), (''symbol'', JStr symbol),
                                    (''tf'', JStr tf), (''candles'', JArr candles),
                                    (''nextTo'', next_to)]))))"

definition cmd_candles :: "env \<Rightarrow> candles_args \<Rightarrow> outcome" where
  "cmd_candles e args =
     (let symbol = py_upper e (arg_symbol args);
          tf = arg_tf args;
          range_code = arg_range args
      in case py_int e (arg_limit args) of
           Inl x \<Rightarrow> Uncaught x
         | Inr n \<Rightarrow>
             (let limit = min n 2000;
                  to_ts = arg_to args
              in if map_of TF_TO_YF_INTERVAL tf = None then
                   error_json (''Invalid timeframe '' @ sq @ tf @ sq @ ''. Allowed: ''
                                 @ keys_repr TF_TO_YF_INTERVAL)
                 else if map_of RANGE_TO_YF_PERIOD range_code = None then
                   error_json (''Invalid range '' @ sq @ range_code @ sq @ ''. Allowed: ''
                                 @ keys_repr RANGE_TO_YF_PERIOD)
                 else
                   (let yf_interval = the (map_of TF_TO_YF_INTERVAL tf)
                    in case candles_body symbol tf range_code limit
                              (candles_hist e symbol range_code to_ts yf_interval) of
                         Inl x \<Rightarrow>
                           error_json (''Candle fetch failed for '' @ symbol @ '': '' @ x)
                       | Inr r \<Rightarrow> r)))"

subsection \<open>Entry point\<close>

text \<open>What \<^verbatim>\<open>argparse\<close> hands over: the chosen subcommand with its options, or none.\<close>

datatype command =
    Quote string
  | Candles candles_args
  | NoCommand

definition main :: "env \<Rightarrow> command \<Rightarrow> outcome" where
  "main e cmd =
     (case cmd of
        Quote s \<Rightarrow> cmd_quote e s
      | Candles args \<Rightarrow> cmd_candles e args
      | NoCommand \<Rightarrow> error_json (''Unknown command. Use '' @ sq @ ''quote'' @ sq @ '' or ''
                                   @ sq @ ''candles'' @ sq @ ''.''))"

section \<open>The report tool: \<^verbatim>\<open>fetch_news.py\<close>\<close>

subsection \<open>Floats that need not be numbers\<close>

text \<open>The value an indicator series holds: a number, or one of the IEEE specials.\<close>

datatype pyfloat =
    Finite rat
  | NaN
  | PosInf
  | NegInf

text \<open>\<^verbatim>\<open>x == c\<close>, \<^verbatim>\<open>x >= c\<close> and \<^verbatim>\<open>x <= c\<close> against a number \<open>c\<close>.\<close>

fun float_eq :: "pyfloat \<Rightarrow> rat \<Rightarrow> bool" where
  "float_eq (Finite r) c = (r = c)"
| "float_eq v c = False"

fun float_ge :: "pyfloat \<Rightarrow> rat \<Rightarrow> bool" where
  "float_ge (Finite r) c = (c \<le> r)"
| "float_ge PosInf c = True"
| "float_ge v c = False"

fun float_le :: "pyfloat \<Rightarrow> rat \<Rightarrow> bool" where
  "float_le (Finite r) c = (r \<le> c)"
| "float_le NegInf c = True"
| "float_le v c = False"

text \<open>The format \<^verbatim>\<open>{x:.2f}\<close>.\<close>

definition fmt_2f :: "rat \<Rightarrow> string" where
  "fmt_2f r =
     (let n = nat (round_half_even (\<bar>r\<bar> * 100))
      in (if r < 0 then ''-'' else []) @ nat_str (n div 100) @ ''.'' @ pad 2 (n mod 100))"

fun float_fmt_2f :: "pyfloat \<Rightarrow> string" where
  "float_fmt_2f (Finite r) = fmt_2f r"
| "float_fmt_2f NaN = ''nan''"
| "float_fmt_2f PosInf = ''inf''"
| "float_fmt_2f NegInf = ''-inf''"

subsection \<open>Dictionaries and words\<close>

text \<open>\<^verbatim>\<open>d.get(k, default)\<close> on a dictionary given as its list of items.\<close>

definition dict_get :: "(string \<times> 'v) list \<Rightarrow> string \<Rightarrow> 'v \<Rightarrow> 'v" where
  "dict_get d k dflt = (case map_of d k of None \<Rightarrow> dflt | Some v \<Rightarrow> v)"

text \<open>The characters \<^verbatim>\<open>str.split()\<close> takes as white space: the ASCII ones, the next-line
  control U+0085 and the no-break space U+00A0.\<close>

definition is_space :: "char \<Rightarrow> bool" where
  "is_space c \<longleftrightarrow>
     c \<in> set [CHR 0x20, CHR 0x09, CHR 0x0A, CHR 0x0B, CHR 0x0C, CHR 0x0D,
              CHR 0x1C, CHR 0x1D, CHR 0x1E, CHR 0x1F, CHR 0x85, CHR 0xA0]"

text \<open>\<^verbatim>\<open>s.split()\<close>: the maximal runs of characters that are not white space; \<open>w\<close> is the
  word being read.\<close>

fun split_from :: "string \<Rightarrow> string \<Rightarrow> string list" where
  "split_from w [] = (if w = [] then [] else [w])"
| "split_from w (c # cs) =
     (if is_space c then (if w = [] then split_from [] cs else w # split_from [] cs)
      else split_from (w @ [c]) cs)"

definition py_split :: "string \<Rightarrow> string list" where
  "py_split s = split_from [] s"

subsection \<open>The provider and the libraries\<close>

text \<open>A news item is a dictionary whose entry \<^verbatim>\<open>content\<close> is a dictionary of strings.\<close>

type_synonym news_item = "(string \<times> (string \<times> string) list) list"

record feeds =
  str_upper :: "string \<Rightarrow> string"
  float_add :: "rat \<Rightarrow> rat \<Rightarrow> rat"
  float_div :: "rat \<Rightarrow> rat \<Rightarrow> rat"
  ticker_news :: "string \<Rightarrow> exn + news_item list"
  ticker_info :: "string \<Rightarrow> exn + (string \<times> string) list"
  polarity :: "string \<Rightarrow> rat"
  ticker_history :: "string \<Rightarrow> request \<Rightarrow> exn + bar list"
  rsi_last :: "rat list \<Rightarrow> exn + pyfloat"

text \<open>
  \<^item> \<open>str_upper s\<close> is \<^verbatim>\<open>s.upper()\<close>;
  \<^item> \<open>float_add x y\<close> is \<^verbatim>\<open>x + y\<close> and \<open>float_div x y\<close> is \<^verbatim>\<open>x / y\<close> as Python
    computes them on numbers, the result rounded to a double;
  \<^item> \<open>ticker_news sym\<close> is \<^verbatim>\<open>yf.Ticker(sym).news\<close> and \<open>ticker_info sym\<close> the string
    entries of \<^verbatim>\<open>yf.Ticker(sym).info\<close>;
  \<^item> \<open>polarity text\<close> is \<^verbatim>\<open>TextBlob(text).sentiment.polarity\<close>;
  \<^item> \<open>ticker_history sym req\<close> is \<^verbatim>\<open>yf.Ticker(sym).history(...)\<close>;
  \<^item> \<open>rsi_last closes\<close> is \<^verbatim>\<open>RSIIndicator(close=closes, window=14).rsi().iloc[-1]\<close>
    of the \<^verbatim>\<open>ta\<close> library.
\<close>

subsection \<open>The result slots\<close>

record slots =
  result_rsi :: pyfloat
  result_news :: string
  result_sentiment :: rat

definition initial_slots :: slots where
  "initial_slots = \<lparr>result_rsi = Finite (- 1), result_news = ''No Data'', result_sentiment = 0\<rparr>"

subsection \<open>Worker 1: \<^verbatim>\<open>get_rsi_data\<close>\<close>

definition get_rsi_data :: "feeds \<Rightarrow> string \<Rightarrow> slots \<Rightarrow> slots" where
  "get_rsi_data f symbol g =
     (case ticker_history f symbol (Period ''1mo'' None) of
        Inl x \<Rightarrow> g\<lparr>result_rsi := Finite (- 1)\<rparr>
      | Inr hist \<Rightarrow>
          if hist \<noteq> [] then
            (case rsi_last f (map bar_close hist) of
               Inl x \<Rightarrow> g\<lparr>result_rsi := Finite (- 1)\<rparr>
             | Inr v \<Rightarrow> g\<lparr>result_rsi := v\<rparr>)
          else g\<lparr>result_rsi := Finite (- 1)\<rparr>)"

subsection \<open>Worker 2: \<^verbatim>\<open>get_news_data\<close>\<close>

definition get_sentiment_score :: "feeds \<Rightarrow> string \<Rightarrow> rat" where
  "get_sentiment_score f text = (if text = [] then 0 else polarity f text)"

definition item_title :: "news_item \<Rightarrow> string" where
  "item_title item = dict_get (dict_get item ''content'' []) ''title'' ''No Title''"

definition item_summary :: "news_item \<Rightarrow> string" where
  "item_summary item = dict_get (dict_get item ''content'' []) ''summary'' []"

definition item_pub_date :: "news_item \<Rightarrow> string" where
  "item_pub_date item = take 10 (dict_get (dict_get item ''content'' []) ''pubDate'' [])"

definition combined_text :: "feeds \<Rightarrow> news_item \<Rightarrow> string" where
  "combined_text f item = str_upper f (item_title item @ '' '' @ item_summary item)"

definition is_relevant :: "feeds \<Rightarrow> string list \<Rightarrow> news_item \<Rightarrow> bool" where
  "is_relevant f keywords item =
     list_ex (\<lambda>k. sublist (str_upper f k) (combined_text f item)) keywords"

text \<open>The number the literal \<^verbatim>\<open>0.1\<close> denotes: the double nearest to one tenth, slightly
  above it.\<close>

definition DOUBLE_TENTH :: rat where
  "DOUBLE_TENTH = 3602879701896397 / 36028797018963968"

definition score_label :: "rat \<Rightarrow> string" where
  "score_label score =
     (if score > DOUBLE_TENTH then ''POSITIVE''
      else if score < - DOUBLE_TENTH then ''NEGATIVE''
      else ''NEUTRAL'')"

definition headline :: "feeds \<Rightarrow> news_item \<Rightarrow> string" where
  "headline f item =
     ''- ['' @ item_pub_date item @ ''] '' @ item_title item @ '' [''
       @ score_label (get_sentiment_score f (item_title item)) @ '']''"

text \<open>The loop over \<^verbatim>\<open>news_list\<close>, on the variables \<^verbatim>\<open>headlines\<close>,
  \<^verbatim>\<open>total_score\<close> and \<^verbatim>\<open>count\<close>; it ends at the \<^verbatim>\<open>break\<close> or with the list.\<close>

fun news_loop ::
    "feeds \<Rightarrow> string list \<Rightarrow> news_item list \<Rightarrow> string list \<times> rat \<times> nat
      \<Rightarrow> string list \<times> rat \<times> nat" where
  "news_loop f keywords [] acc = acc"
| "news_loop f keywords (item # rest) (headlines, total_score, count) =
     (let acc' =
            (if is_relevant f keywords item then
               (headlines @ [headline f item],
                float_add f total_score (get_sentiment_score f (item_title item)),
                count + 1)
             else (headlines, total_score, count))
      in if 5 \<le> snd (snd acc') then acc' else news_loop f keywords rest acc')"

text \<open>The body of the \<^verbatim>\<open>try\<close>: the exception raised in it, or the values it assigns to
  \<^verbatim>\<open>result_news\<close> and \<^verbatim>\<open>result_sentiment\<close>.\<close>

definition news_body :: "feeds \<Rightarrow> string \<Rightarrow> exn + string \<times> rat" where
  "news_body f symbol =
     (case ticker_news f symbol of
        Inl x \<Rightarrow> Inl x
      | Inr news_list \<Rightarrow>
          (case ticker_info f symbol of
             Inl x \<Rightarrow> Inl x
           | Inr info \<Rightarrow>
               (case py_split (dict_get info ''shortName'' []) of
                  [] \<Rightarrow> Inl ''list index out of range''
                | w # ws \<Rightarrow>
                    (case news_loop f [symbol, w] news_list ([], 0, 0) of
                       (headlines, total_score, count) \<Rightarrow>
                         Inr (join [CHR 0x0A]
                                (if headlines = [] then
                                   [''No specific news found for '' @ symbol @ ''.'']
                                 else headlines),
                              if count > 0 then float_div f total_score (of_nat count)
                              else 0)))))"

definition get_news_data :: "feeds \<Rightarrow> string \<Rightarrow> slots \<Rightarrow> slots" where
  "get_news_data f symbol g =
     (case news_body f symbol of
        Inl x \<Rightarrow> g\<lparr>result_news := ''Error: '' @ x\<rparr>
      | Inr (news, sentiment) \<Rightarrow> g\<lparr>result_news := news, result_sentiment := sentiment\<rparr>)"

subsection \<open>Main program\<close>

text \<open>
  The two workers run as threads that are joined before anything is printed. Each
  writes slots the other neither reads nor writes, so every interleaving leaves the
  slots that running one worker after the other leaves.
\<close>

definition run_workers :: "feeds \<Rightarrow> string \<Rightarrow> slots" where
  "run_workers f symbol = get_news_data f symbol (get_rsi_data f symbol initial_slots)"

definition rsi_status :: "pyfloat \<Rightarrow> string" where
  "rsi_status v =
     (if float_eq v (- 1) then ''DATA ERROR''
      else if float_ge v 70 then ''OVERBOUGHT (SELL RISK)''
      else if float_le v 30 then ''OVERSOLD (BUY CHANCE)''
      else ''NEUTRAL'')"

definition sent_status :: "rat \<Rightarrow> string" where
  "sent_status v =
     (if v > DOUBLE_TENTH then ''BULLISH''
      else if v < - DOUBLE_TENTH then ''BEARISH''
      else ''NEUTRAL'')"

definition report_lines :: "string \<Rightarrow> slots \<Rightarrow> string list" where
  "report_lines symbol g =
     [''--- TECHNICAL REPORT ('' @ symbol @ '') ---'',
      ''RSI (14-day): '' @ float_fmt_2f (result_rsi g) @ '' ['' @ rsi_status (result_rsi g) @ '']'',
      ''SENTIMENT:    '' @ fmt_2f (result_sentiment g) @ '' ['' @ sent_status (result_sentiment g)
        @ '']'',
      replicate 30 (CHR ''-''),
      ''TOP NEWS HEADLINES:'',
      result_news g]"

text \<open>The lines printed and the exit code, from \<^verbatim>\<open>sys.argv\<close>.\<close>

definition report_main :: "feeds \<Rightarrow> string list \<Rightarrow> string list \<times> int" where
  "report_main f argv =
     (if length argv < 2 then ([''Error: No symbol provided.''], 1)
      else (let symbol = str_upper f (argv ! 1)
            in (report_lines symbol (run_workers f symbol), 0)))"

section \<open>Sample data\<close>

text \<open>
  Concrete surroundings for the runs evaluated below, all on ASCII text.
  \<open>ascii_upper\<close> is \<^verbatim>\<open>str.upper\<close> on ASCII strings. \<open>ascii_int\<close> reads a string of
  ASCII digits with an optional minus sign as \<^verbatim>\<open>int\<close> does and refuses everything
  else (Python accepts more: blanks around the number, a plus sign, underscores). The
  sums and quotients of the sample scores are exact in double precision.
\<close>

definition ascii_upper_char :: "char \<Rightarrow> char" where
  "ascii_upper_char c =
     (case map_of (zip ''abcdefghijklmnopqrstuvwxyz'' ''ABCDEFGHIJKLMNOPQRSTUVWXYZ'') c of
        None \<Rightarrow> c
      | Some u \<Rightarrow> u)"

definition ascii_upper :: "string \<Rightarrow> string" where
  "ascii_upper s = map ascii_upper_char s"

fun dec_value :: "int \<Rightarrow> string \<Rightarrow> int" where
  "dec_value a [] = a"
| "dec_value a (c # cs) = dec_value (10 * a + (of_char c - 48)) cs"

definition ascii_int :: "string \<Rightarrow> exn + int" where
  "ascii_int s =
     (let ds = (if s \<noteq> [] \<and> hd s = CHR ''-'' then tl s else s)
      in if ds \<noteq> [] \<and> list_all (\<lambda>c. List.member ''0123456789'' c) ds then
           Inr (if ds = s then dec_value 0 ds else - dec_value 0 ds)
         else Inl (''invalid literal for int() with base 10: '' @ sq @ s @ sq))"

definition sample_rows :: "bar list" where
  "sample_rows =
     [\<lparr>bar_time = 1699833600, bar_open = 118, bar_high = 119, bar_low = 233 / 2,
       bar_close = 2341 / 20, bar_volume = 46000000\<rparr>,
      \<lparr>bar_time = 1699920000, bar_open = 2351 / 20, bar_high = 120, bar_low = 117,
       bar_close = 11959 / 100, bar_volume = 51000000\<rparr>,
      \<lparr>bar_time = 1700006400, bar_open = 120, bar_high = 121, bar_low = 118,
       bar_close = 9841541 / 65536, bar_volume = 49000000\<rparr>]"

definition sample_env :: env where
  "sample_env =
     \<lparr>py_upper = ascii_upper,
      py_int = ascii_int,
      py_int_float = ascii_int,
      datetime_error = (\<lambda>t. ''year is out of range''),
      fast_last_price = (\<lambda>s. Inr None),
      history = (\<lambda>s req. Inr sample_rows),
      utc_now = ''2023-11-15T21:00:00Z''\<rparr>"

definition sample_args :: candles_args where
  "sample_args =
     \<lparr>arg_symbol = ''amd'', arg_tf = ''1d'', arg_range = ''90d'', arg_limit = ''500'',
      arg_to = None\<rparr>"

text \<open>A news feed of seven items, six of which name the company, and the company's entry
  in the provider's directory.\<close>

definition sample_item :: "string \<Rightarrow> string \<Rightarrow> string \<Rightarrow> news_item" where
  "sample_item title summary pub_date =
     [(''content'', [(''title'', title), (''summary'', summary), (''pubDate'', pub_date)])]"

definition sample_news :: "news_item list" where
  "sample_news =
     [sample_item ''AMD unveils new chips'' ''A launch event.'' ''2023-11-14T10:00:00Z'',
      sample_item ''Markets rally'' ''Stocks rose broadly.'' ''2023-11-14T09:00:00Z'',
      sample_item ''Chip makers gain'' ''Shares of Amd climbed.'' ''2023-11-13T15:30:00Z'',
      sample_item ''Advanced Micro Devices beats estimates'' [] ''2023-11-13T08:00:00Z'',
      sample_item ''Why amd stock fell'' ''A look at the week.'' ''2023-11-12T12:00:00Z'',
      sample_item ''Analysts upgrade AMD'' ''Price targets raised.'' ''2023-11-11T11:00:00Z'',
      sample_item ''AMD after hours'' ''Late trading.'' ''2023-11-10T22:00:00Z'']"

definition sample_feeds :: feeds where
  "sample_feeds =
     \<lparr>str_upper = ascii_upper,
      float_add = (\<lambda>x y. x + y),
      float_div = (\<lambda>x y. x / y),
      ticker_news = (\<lambda>s. Inr sample_news),
      ticker_info = (\<lambda>s. Inr [(''shortName'', ''Advanced Micro Devices, Inc.'')]),
      polarity = (\<lambda>text. if text = ''Analysts upgrade AMD'' then 5 / 8 else 0),
      ticker_history = (\<lambda>s req. Inr sample_rows),
      rsi_last = (\<lambda>closes. Inr (Finite 55))\<rparr>"

text \<open>The same feeds for a symbol whose short name is a single blank.\<close>

definition blank_name_feeds :: feeds where
  "blank_name_feeds = sample_feeds\<lparr>ticker_info := (\<lambda>s. Inr [(''shortName'', '' '')])\<rparr>"


section \<open>Words of the specification\<close>

text \<open>"Contains \<open>k\<close> as a case-insensitive substring": with the case removed from both
  by the upper-casing \<open>up\<close>, \<open>k\<close> is a stretch of the text.\<close>

definition contains_ignoring_case :: "(string \<Rightarrow> string) \<Rightarrow> string \<Rightarrow> string \<Rightarrow> bool" where
  "contains_ignoring_case up text k \<longleftrightarrow> (\<exists>pre post. up text = pre @ up k @ post)"


section \<open>Properties of the market data tool\<close>

subsection \<open>What a successful candles run prints\<close>

lemma candles_printed:
  assumes "cmd_candles e args = Printed j"
  shows "\<exists>n hist. py_int e (arg_limit args) = Inr n \<and>
           candles_hist e (py_upper e (arg_symbol args)) (arg_range args) (arg_to args)
             (the (map_of TF_TO_YF_INTERVAL (arg_tf args))) = Inr hist \<and> hist \<noteq> [] \<and>
           j = JObj [(''ok'', JBool True), (''symbol'', JStr (py_upper e (arg_symbol args))),
                     (''tf'', JStr (arg_tf args)),
                     (''candles'', JArr (map candle (trim_to_limit (min n 2000) hist))),
                     (''nextTo'', case trim_to_limit (min n 2000) hist of [] \<Rightarrow> JNull
                                  | b # bs \<Rightarrow> JInt (bar_time b))]"
  using assms
  by (auto simp: cmd_candles_def candles_body_def error_json_def Let_def candle_def jfield_def
      split: sum.splits if_splits list.splits)

lemma candle_time: "jfield (candle b) ''time'' = Some (JInt (bar_time b))"
  by (simp add: candle_def jfield_def)

text \<open>
  Claim C3, as the code has it. Every successful candles response has the field
  \<open>nextTo\<close>: it is the \<open>time\<close> of the first element of the array \<open>candles\<close>, an integer,
  and it is the null value when the array is empty.
\<close>

theorem nextTo_first_candle:
  assumes "cmd_candles e args = Printed j"
  shows "\<exists>cs. jfield j ''candles'' = Some (JArr cs) \<and>
          jfield j ''nextTo'' = (case cs of [] \<Rightarrow> Some JNull | c # rest \<Rightarrow> jfield c ''time'') \<and>
          jfield j ''nextTo'' \<noteq> None \<and>
          list_all (\<lambda>c. \<exists>t. jfield c ''time'' = Some (JInt t)) cs"
proof -
  from candles_printed [OF assms] obtain n hist where
    j: "j = JObj [(''ok'', JBool True), (''symbol'', JStr (py_upper e (arg_symbol args))),
                     (''tf'', JStr (arg_tf args)),
                     (''candles'', JArr (map candle (trim_to_limit (min n 2000) hist))),
                     (''nextTo'', case trim_to_limit (min n 2000) hist of [] \<Rightarrow> JNull
                                  | b # bs \<Rightarrow> JInt (bar_time b))]"
    by (elim exE conjE)
  let ?rows = "trim_to_limit (min n 2000) hist"
  have 1: "jfield j ''candles'' = Some (JArr (map candle ?rows))"
    by (simp add: j jfield_def)
  have 2: "jfield j ''nextTo'' =
             (case map candle ?rows of [] \<Rightarrow> Some JNull | c # rest \<Rightarrow> jfield c ''time'')"
    by (cases ?rows) (simp_all add: j jfield_def candle_def)
  have 3: "list_all (\<lambda>c. \<exists>t. jfield c ''time'' = Some (JInt t)) (map candle ?rows)"
    by (simp add: list_all_iff candle_time)
  have 4: "jfield j ''nextTo'' \<noteq> None"
    by (simp add: j jfield_def)
  from 1 2 4 3 show ?thesis
    by (intro exI [of _ "map candle ?rows"] conjI)
qed

text \<open>Two runs: one that returns the three sample rows, and one whose negative limit
  leaves no row, so that \<open>nextTo\<close> is null.\<close>

theorem nextTo_first_candle_witness:
  "(\<exists>j. cmd_candles sample_env sample_args = Printed j \<and>
        jfield j ''nextTo'' = Some (JInt 1699833600) \<and>
        (\<exists>cs. jfield j ''candles'' = Some (JArr cs) \<and>
          jfield j ''nextTo'' = (case cs of [] \<Rightarrow> Some JNull | c # rest \<Rightarrow> jfield c ''time'') \<and>
          jfield j ''nextTo'' \<noteq> None \<and>
          list_all (\<lambda>c. \<exists>t. jfield c ''time'' = Some (JInt t)) cs)) \<and>
   (\<exists>j. cmd_candles sample_env (sample_args\<lparr>arg_limit := ''-5''\<rparr>) = Printed j \<and>
        jfield j ''candles'' = Some (JArr []) \<and>
        jfield j ''nextTo'' = Some JNull \<and>
        (\<exists>cs. jfield j ''candles'' = Some (JArr cs) \<and>
          jfield j ''nextTo'' = (case cs of [] \<Rightarrow> Some JNull | c # rest \<Rightarrow> jfield c ''time'') \<and>
          jfield j ''nextTo'' \<noteq> None \<and>
          list_all (\<lambda>c. \<exists>t. jfield c ''time'' = Some (JInt t)) cs))"
proof -
  let ?j1 = "JObj [(''ok'', JBool True), (''symbol'', JStr ''AMD''), (''tf'', JStr ''1d''),
     (''candles'', JArr (map candle sample_rows)), (''nextTo'', JInt 1699833600)]"
  let ?j2 = "JObj [(''ok'', JBool True), (''symbol'', JStr ''AMD''), (''tf'', JStr ''1d''),
     (''candles'', JArr []), (''nextTo'', JNull)]"
  have r1: "cmd_candles sample_env sample_args = Printed ?j1"
    by code_simp
  have r2: "cmd_candles sample_env (sample_args\<lparr>arg_limit := ''-5''\<rparr>) = Printed ?j2"
    by code_simp
  have f1: "jfield ?j1 ''nextTo'' = Some (JInt 1699833600)"
    by (simp add: jfield_def)
  have f2: "jfield ?j2 ''candles'' = Some (JArr [])" "jfield ?j2 ''nextTo'' = Some JNull"
    by (simp_all add: jfield_def)
  from r1 f1 nextTo_first_candle [OF r1] have a: "\<exists>j. cmd_candles sample_env sample_args = Printed j \<and>
        jfield j ''nextTo'' = Some (JInt 1699833600) \<and>
        (\<exists>cs. jfield j ''candles'' = Some (JArr cs) \<and>
          jfield j ''nextTo'' = (case cs of [] \<Rightarrow> Some JNull | c # rest \<Rightarrow> jfield c ''time'') \<and>
          jfield j ''nextTo'' \<noteq> None \<and>
          list_all (\<lambda>c. \<exists>t. jfield c ''time'' = Some (JInt t)) cs)"
    by (intro exI [of _ ?j1] conjI)
  from r2 f2 nextTo_first_candle [OF r2] have b: "\<exists>j. cmd_candles sample_env (sample_args\<lparr>arg_limit := ''-5''\<rparr>) = Printed j \<and>
        jfield j ''candles'' = Some (JArr []) \<and>
        jfield j ''nextTo'' = Some JNull \<and>
        (\<exists>cs. jfield j ''candles'' = Some (JArr cs) \<and>
          jfield j ''nextTo'' = (case cs of [] \<Rightarrow> Some JNull | c # rest \<Rightarrow> jfield c ''time'') \<and>
          jfield j ''nextTo'' \<noteq> None \<and>
          list_all (\<lambda>c. \<exists>t. jfield c ''time'' = Some (JInt t)) cs)"
    by (intro exI [of _ ?j2] conjI)
  from a b show ?thesis by (rule conjI)
qed

text \<open>
  The field is not absent when there are no candles: the run with \<^verbatim>\<open>--limit -5\<close> on
  three rows prints an empty array and \<^verbatim>\<open>"nextTo": null\<close>.
\<close>

theorem nextTo_absent_counterexample:
  "cmd_candles sample_env (sample_args\<lparr>arg_limit := ''-5''\<rparr>) =
     Printed (JObj [(''ok'', JBool True), (''symbol'', JStr ''AMD''), (''tf'', JStr ''1d''),
                    (''candles'', JArr []), (''nextTo'', JNull)]) \<and>
   jfield (JObj [(''ok'', JBool True), (''symbol'', JStr ''AMD''), (''tf'', JStr ''1d''),
                 (''candles'', JArr []), (''nextTo'', JNull)]) ''nextTo'' = Some JNull \<and>
   jfield (JObj [(''ok'', JBool True), (''symbol'', JStr ''AMD''), (''tf'', JStr ''1d''),
                 (''candles'', JArr []), (''nextTo'', JNull)]) ''nextTo'' \<noteq> None"
  by code_simp

text \<open>The array keeps the order of the provider's rows, of which it is the tail: with
  rows ascending by time, its first element is the earliest one printed.\<close>

lemma suffix_trim: "suffix (trim_to_limit l xs) xs"
  by (simp add: trim_to_limit_def iloc_from_def Let_def suffix_drop)

lemma sorted_suffix_first:
  assumes "sorted (map bar_time hist)" "suffix (b # bs) hist" "b' \<in> set (b # bs)"
  shows "bar_time b \<le> bar_time b'"
proof -
  from assms(2) obtain pre where "hist = pre @ b # bs"
    by (auto simp: suffix_def)
  with assms(1) have "sorted (map bar_time (b # bs))"
    by (simp add: sorted_append)
  with assms(3) show ?thesis
    by auto
qed

lemma candles_keep_order:
  assumes "cmd_candles e args = Printed j"
  shows "\<exists>hist rows.
           candles_hist e (py_upper e (arg_symbol args)) (arg_range args) (arg_to args)
             (the (map_of TF_TO_YF_INTERVAL (arg_tf args))) = Inr hist \<and>
           suffix rows hist \<and>
           jfield j ''candles'' = Some (JArr (map candle rows)) \<and>
           jfield j ''nextTo'' = Some (case rows of [] \<Rightarrow> JNull | b # bs \<Rightarrow> JInt (bar_time b)) \<and>
           (sorted (map bar_time hist) \<longrightarrow>
              (\<forall>b \<in> set rows. bar_time (hd rows) \<le> bar_time b))"
proof -
  from candles_printed [OF assms] obtain n hist where
    h: "candles_hist e (py_upper e (arg_symbol args)) (arg_range args) (arg_to args)
             (the (map_of TF_TO_YF_INTERVAL (arg_tf args))) = Inr hist"
    and j: "j = JObj [(''ok'', JBool True), (''symbol'', JStr (py_upper e (arg_symbol args))),
                     (''tf'', JStr (arg_tf args)),
                     (''candles'', JArr (map candle (trim_to_limit (min n 2000) hist))),
                     (''nextTo'', case trim_to_limit (min n 2000) hist of [] \<Rightarrow> JNull
                                  | b # bs \<Rightarrow> JInt (bar_time b))]"
    by (elim exE conjE)
  let ?rows = "trim_to_limit (min n 2000) hist"
  have s: "suffix ?rows hist"
    by (rule suffix_trim)
  have c: "jfield j ''candles'' = Some (JArr (map candle ?rows))"
    by (simp add: j jfield_def)
  have n: "jfield j ''nextTo'' = Some (case ?rows of [] \<Rightarrow> JNull | b # bs \<Rightarrow> JInt (bar_time b))"
    by (simp add: j jfield_def)
  have o: "sorted (map bar_time hist) \<longrightarrow> (\<forall>b \<in> set ?rows. bar_time (hd ?rows) \<le> bar_time b)"
  proof (intro impI ballI)
    fix b
    assume so: "sorted (map bar_time hist)" and b: "b \<in> set ?rows"
    then obtain r rs where r: "?rows = r # rs"
      by (cases ?rows) auto
    from sorted_suffix_first [OF so s [unfolded r] b [unfolded r]]
    show "bar_time (hd ?rows) \<le> bar_time b"
      by (simp add: r)
  qed
  from h s c n o show ?thesis
    by (intro exI [of _ hist] exI [of _ ?rows] conjI)
qed

subsection \<open>The window of a paged fetch\<close>

lemma div_shift: "(t - days * 86400) div 86400 = t div 86400 - days" for t days :: int
proof -
  have "(t + (- days) * 86400) div 86400 = (- days) + t div 86400"
    by (rule div_mult_self1) simp
  then show ?thesis by simp
qed

lemma range_days:
  assumes "(rc, days) \<in> {(''7d'', 7), (''30d'', 30), (''90d'', 90), (''180d'', 180), (''1y'', 365), (''2y'', 730)}"
  shows "map_of RANGE_TO_TIMEDELTA rc = Some (days * 86400)"
    and "map_of RANGE_TO_YF_PERIOD rc \<noteq> None"
  using assms by (auto simp: RANGE_TO_TIMEDELTA_def timedelta_days_def RANGE_TO_YF_PERIOD_def)

lemma paging_request:
  assumes range: "(rc, days) \<in> {(''7d'', 7), (''30d'', 30), (''90d'', 90), (''180d'', 180), (''1y'', 365), (''2y'', 730)}"
    and to: "s \<noteq> []" "py_int_float e s = Inr t"
    and rng: "in_datetime_range t" "in_datetime_range (t - days * 86400)"
  shows "candles_request e rc (Some s) iv = Inr (Window (ymd (t div 86400 - days)) (ymd (t div 86400)) iv)"
  using to rng by (simp add: candles_request_def range_days(1) [OF range] strftime_ymd_def div_shift)

text \<open>
  Claim C1, as the code has it. With a valid timeframe and range code, a limit that
  \<^verbatim>\<open>int\<close> reads, and a pivot \<open>to\<close> that is a timestamp \<open>t\<close> of a representable
  date (as is \<open>t\<close> less the duration), the provider is asked for a window of calendar
  dates: its end is the UTC day \<open>t\<close> lies in, the time of day dropped, and its start is
  the day exactly 7, 30, 90, 180, 365 or 730 days before that one, by the range code. The
  outcome of the run is computed from the provider's answer to that request.
\<close>

theorem paging_window_dates:
  assumes range: "(arg_range args, days) \<in> {(''7d'', 7), (''30d'', 30), (''90d'', 90), (''180d'', 180), (''1y'', 365), (''2y'', 730)}"
    and tf: "map_of TF_TO_YF_INTERVAL (arg_tf args) = Some iv"
    and limit: "py_int e (arg_limit args) = Inr n"
    and to: "arg_to args = Some s" "s \<noteq> []" "py_int_float e s = Inr t"
    and rng: "in_datetime_range t" "in_datetime_range (t - days * 86400)"
  shows "candles_request e (arg_range args) (arg_to args) iv =
           Inr (Window (ymd (t div 86400 - days)) (ymd (t div 86400)) iv) \<and>
         cmd_candles e args =
           (case candles_body (py_upper e (arg_symbol args)) (arg_tf args) (arg_range args) (min n 2000)
                   (history e (py_upper e (arg_symbol args))
                      (Window (ymd (t div 86400 - days)) (ymd (t div 86400)) iv)) of
              Inl x \<Rightarrow> error_json (''Candle fetch failed for '' @ py_upper e (arg_symbol args) @ '': '' @ x)
            | Inr r \<Rightarrow> r)"
proof -
  have req: "candles_request e (arg_range args) (arg_to args) iv =
           Inr (Window (ymd (t div 86400 - days)) (ymd (t div 86400)) iv)"
    unfolding to(1) by (rule paging_request [OF range to(2,3) rng])
  have run: "cmd_candles e args =
           (case candles_body (py_upper e (arg_symbol args)) (arg_tf args) (arg_range args) (min n 2000)
                   (history e (py_upper e (arg_symbol args))
                      (Window (ymd (t div 86400 - days)) (ymd (t div 86400)) iv)) of
              Inl x \<Rightarrow> error_json (''Candle fetch failed for '' @ py_upper e (arg_symbol args) @ '': '' @ x)
            | Inr r \<Rightarrow> r)"
  proof -
    from range_days(2) [OF range] obtain p where "map_of RANGE_TO_YF_PERIOD (arg_range args) = Some p"
      by auto
    then show ?thesis
      by (simp add: cmd_candles_def limit tf candles_hist_def req Let_def)
  qed
  from req run show ?thesis by (rule conjI)
qed

text \<open>
  The window does not end at the pivot timestamp itself: the pivots 1700000000
  (2023-11-14 22:13:20 UTC) and 1699920000 (2023-11-14 00:00:00 UTC) give the provider the
  same window, whose end is the date 2023-11-14.
\<close>

theorem paging_window_end_counterexample:
  "candles_request sample_env ''90d'' (Some ''1700000000'') ''1d'' =
     Inr (Window ''2023-08-16'' ''2023-11-14'' ''1d'') \<and>
   candles_request sample_env ''90d'' (Some ''1699920000'') ''1d'' =
     Inr (Window ''2023-08-16'' ''2023-11-14'' ''1d'')"
  by code_simp

text \<open>The sample run with \<^verbatim>\<open>--range 90d --to 1700000000\<close>.\<close>

theorem paging_window_dates_witness:
  "in_datetime_range 1700000000 \<and> in_datetime_range (1700000000 - 90 * 86400) \<and>
   py_int_float sample_env ''1700000000'' = Inr 1700000000 \<and>
   candles_request sample_env ''90d'' (Some ''1700000000'') ''1d'' =
     Inr (Window (ymd (1700000000 div 86400 - 90)) (ymd (1700000000 div 86400)) ''1d'') \<and>
   ymd (1700000000 div 86400 - 90) = ''2023-08-16'' \<and>
   ymd (1700000000 div 86400) = ''2023-11-14''"
proof -
  let ?a = "sample_args\<lparr>arg_to := Some ''1700000000''\<rparr>"
  have h1: "(arg_range ?a, 90) \<in> {(''7d'', 7), (''30d'', 30), (''90d'', 90), (''180d'', 180),
              (''1y'', 365), (''2y'', 730)}"
    by (simp add: sample_args_def)
  have h2: "map_of TF_TO_YF_INTERVAL (arg_tf ?a) = Some ''1d''"
    by (simp add: sample_args_def TF_TO_YF_INTERVAL_def)
  have h3: "py_int sample_env (arg_limit ?a) = Inr 500"
    by code_simp
  have h4: "arg_to ?a = Some ''1700000000''"
    by simp
  have h5: "''1700000000'' \<noteq> []"
    by simp
  have h6: "py_int_float sample_env ''1700000000'' = Inr 1700000000"
    by code_simp
  have h7: "in_datetime_range 1700000000"
    by (simp add: in_datetime_range_def DATETIME_MIN_def DATETIME_MAX_def)
  have h8: "in_datetime_range (1700000000 - 90 * 86400)"
    by (simp add: in_datetime_range_def DATETIME_MIN_def DATETIME_MAX_def)
  have d1: "ymd (1700000000 div 86400 - 90) = ''2023-08-16''"
    by code_simp
  have d2: "ymd (1700000000 div 86400) = ''2023-11-14''"
    by code_simp
  from paging_window_dates [OF h1 h2 h3 h4 h5 h6 h7 h8]
  have "candles_request sample_env (arg_range ?a) (arg_to ?a) ''1d'' =
     Inr (Window (ymd (1700000000 div 86400 - 90)) (ymd (1700000000 div 86400)) ''1d'')"
    by (rule conjunct1)
  then have r: "candles_request sample_env ''90d'' (Some ''1700000000'') ''1d'' =
     Inr (Window (ymd (1700000000 div 86400 - 90)) (ymd (1700000000 div 86400)) ''1d'')"
    by (simp add: sample_args_def)
  from h7 h8 h6 r d1 d2 show ?thesis
    by (intro conjI)
qed

subsection \<open>Trimming to the limit\<close>

lemma trim_positive:
  assumes "0 < l"
  shows "int (length (trim_to_limit l xs)) \<le> l"
    and "int (length xs) > l \<Longrightarrow> trim_to_limit l xs = drop (length xs - nat l) xs"
    and "int (length xs) \<le> l \<Longrightarrow> trim_to_limit l xs = xs"
  using assms by (auto simp: trim_to_limit_def iloc_from_def Let_def max_def nat_diff_distrib')

lemma trim_positive_drop:
  assumes "0 < l"
  shows "trim_to_limit l xs = drop (length xs - nat l) xs"
proof (cases "int (length xs) > l")
  case True
  then show ?thesis by (rule trim_positive(2) [OF assms])
next
  case False
  then have "length xs - nat l = 0" by simp
  moreover from False have "trim_to_limit l xs = xs" by (simp add: trim_to_limit_def)
  ultimately show ?thesis by simp
qed

lemma trim_zero: "trim_to_limit 0 xs = xs"
  by (simp add: trim_to_limit_def iloc_from_def)

lemma trim_negative: "l < 0 \<Longrightarrow> trim_to_limit l xs = drop (nat (- l)) xs"
  by (auto simp: trim_to_limit_def iloc_from_def Let_def min_def)

text \<open>For a positive limit the trimming does what its comment says.\<close>

lemma candles_positive_limit:
  assumes run: "cmd_candles e args = Printed j"
    and limit: "py_int e (arg_limit args) = Inr n" "0 < n"
  shows "\<exists>hist. candles_hist e (py_upper e (arg_symbol args)) (arg_range args) (arg_to args)
             (the (map_of TF_TO_YF_INTERVAL (arg_tf args))) = Inr hist \<and>
           jfield j ''candles'' =
             Some (JArr (map candle (drop (length hist - nat (min n 2000)) hist))) \<and>
           int (length (drop (length hist - nat (min n 2000)) hist)) \<le> n \<and>
           length (drop (length hist - nat (min n 2000)) hist) \<le> 2000"
proof -
  from candles_printed [OF run] limit(1) obtain hist where
    h: "candles_hist e (py_upper e (arg_symbol args)) (arg_range args) (arg_to args)
             (the (map_of TF_TO_YF_INTERVAL (arg_tf args))) = Inr hist"
    and j: "jfield j ''candles'' = Some (JArr (map candle (trim_to_limit (min n 2000) hist)))"
    by (auto simp: jfield_def)
  have pos: "0 < min n 2000" using limit(2) by simp
  have t: "trim_to_limit (min n 2000) hist = drop (length hist - nat (min n 2000)) hist"
    by (rule trim_positive_drop [OF pos])
  have "int (length (trim_to_limit (min n 2000) hist)) \<le> min n 2000"
    by (rule trim_positive(1) [OF pos])
  then have l: "int (length (drop (length hist - nat (min n 2000)) hist)) \<le> n"
     "length (drop (length hist - nat (min n 2000)) hist) \<le> 2000"
    unfolding t by simp_all
  from h j [unfolded t] l show ?thesis by (intro exI [of _ hist] conjI)
qed

text \<open>For the limit 0 every row the provider returned is printed.\<close>

lemma candles_limit_zero:
  assumes run: "cmd_candles e args = Printed j"
    and limit: "py_int e (arg_limit args) = Inr 0"
  shows "\<exists>hist. candles_hist e (py_upper e (arg_symbol args)) (arg_range args) (arg_to args)
             (the (map_of TF_TO_YF_INTERVAL (arg_tf args))) = Inr hist \<and> hist \<noteq> [] \<and>
           jfield j ''candles'' = Some (JArr (map candle hist))"
  using candles_printed [OF run] limit by (auto simp: jfield_def trim_zero)

text \<open>
  Claim C2 fails on the code for a limit that is not positive. With \<^verbatim>\<open>--limit 0\<close> the
  test \<^verbatim>\<open>len(hist) > limit\<close> holds and the slice \<^verbatim>\<open>hist.iloc[-0:]\<close> is the whole
  frame: the run below prints three candles for the requested limit 0.
\<close>

theorem limit_zero_prints_every_row:
  "py_int sample_env ''0'' = Inr 0 \<and>
   cmd_candles sample_env (sample_args\<lparr>arg_limit := ''0''\<rparr>) =
     Printed (JObj [(''ok'', JBool True), (''symbol'', JStr ''AMD''), (''tf'', JStr ''1d''),
                    (''candles'', JArr (map candle sample_rows)),
                    (''nextTo'', JInt 1699833600)]) \<and>
   length (map candle sample_rows) = 3"
  by code_simp

subsection \<open>Failures\<close>

text \<open>Every run ends in one of three ways: a printed result, the error object of
  \<^verbatim>\<open>error_json\<close> with exit code 1, or the traceback of an \<^verbatim>\<open>int\<close> that could not read
  \<^verbatim>\<open>--limit\<close>.\<close>

lemma cmd_quote_outcome:
  "(\<exists>j. cmd_quote e s = Printed j \<and> jfield j ''ok'' = Some (JBool True)) \<or>
   (\<exists>msg. cmd_quote e s = error_json msg)"
  by (auto simp: cmd_quote_def quote_body_def Let_def jfield_def split: sum.splits option.splits)

lemma cmd_candles_outcome:
  "(\<exists>j. cmd_candles e args = Printed j \<and> jfield j ''ok'' = Some (JBool True)) \<or>
   (\<exists>msg. cmd_candles e args = error_json msg) \<or>
   (\<exists>x. py_int e (arg_limit args) = Inl x \<and> cmd_candles e args = Uncaught x)"
  by (auto simp: cmd_candles_def candles_body_def Let_def jfield_def split: sum.splits)

lemma error_json_run:
  "stdout (error_json msg) = [JObj [(''ok'', JBool False), (''error'', JStr msg)]]"
  "exit_code (error_json msg) = 1"
  by (simp_all add: error_json_def)

lemma malformed_limit:
  assumes "py_int e (arg_limit args) = Inl x"
  shows "main e (Candles args) = Uncaught x"
  using assms by (simp add: main_def cmd_candles_def)

text \<open>
  Claim C4 fails on the code for a malformed \<^verbatim>\<open>--limit\<close>: \<^verbatim>\<open>int(args.limit)\<close> stands
  before the \<^verbatim>\<open>try\<close> block, so its \<^verbatim>\<open>ValueError\<close> leaves the program. The run
  with \<^verbatim>\<open>--limit abc\<close> writes nothing to stdout and exits with code 1.
\<close>

theorem malformed_limit_traceback:
  "main sample_env (Candles (sample_args\<lparr>arg_limit := ''abc''\<rparr>)) =
     Uncaught (''invalid literal for int() with base 10: '' @ sq @ ''abc'' @ sq) \<and>
   stdout (main sample_env (Candles (sample_args\<lparr>arg_limit := ''abc''\<rparr>))) = [] \<and>
   exit_code (main sample_env (Candles (sample_args\<lparr>arg_limit := ''abc''\<rparr>))) = 1"
  by code_simp

text \<open>With a limit that \<^verbatim>\<open>int\<close> reads, a code outside the tables gives the error
  object that lists the allowed values, whatever the provider would answer.\<close>

lemma allowed_timeframes:
  "keys_repr TF_TO_YF_INTERVAL =
     ''['' @ sq @ ''1m'' @ sq @ '', '' @ sq @ ''5m'' @ sq @ '', '' @ sq @ ''15m'' @ sq
       @ '', '' @ sq @ ''1h'' @ sq @ '', '' @ sq @ ''1d'' @ sq @ '', '' @ sq @ ''1w'' @ sq
       @ '', '' @ sq @ ''1mo'' @ sq @ '']''"
  by (simp add: keys_repr_def TF_TO_YF_INTERVAL_def)

lemma allowed_ranges:
  "keys_repr RANGE_TO_YF_PERIOD =
     ''['' @ sq @ ''7d'' @ sq @ '', '' @ sq @ ''30d'' @ sq @ '', '' @ sq @ ''90d'' @ sq
       @ '', '' @ sq @ ''180d'' @ sq @ '', '' @ sq @ ''1y'' @ sq @ '', '' @ sq @ ''2y'' @ sq
       @ '']''"
  by (simp add: keys_repr_def RANGE_TO_YF_PERIOD_def)

lemma invalid_timeframe:
  assumes "py_int e (arg_limit args) = Inr n" "map_of TF_TO_YF_INTERVAL (arg_tf args) = None"
  shows "cmd_candles e args =
           error_json (''Invalid timeframe '' @ sq @ arg_tf args @ sq @ ''. Allowed: ''
                         @ ''['' @ sq @ ''1m'' @ sq @ '', '' @ sq @ ''5m'' @ sq @ '', '' @ sq @ ''15m'' @ sq
                         @ '', '' @ sq @ ''1h'' @ sq @ '', '' @ sq @ ''1d'' @ sq @ '', '' @ sq @ ''1w'' @ sq
                         @ '', '' @ sq @ ''1mo'' @ sq @ '']'')"
  using assms by (simp add: cmd_candles_def allowed_timeframes)

lemma invalid_range:
  assumes "py_int e (arg_limit args) = Inr n" "map_of TF_TO_YF_INTERVAL (arg_tf args) = Some iv"
    "map_of RANGE_TO_YF_PERIOD (arg_range args) = None"
  shows "cmd_candles e args =
           error_json (''Invalid range '' @ sq @ arg_range args @ sq @ ''. Allowed: ''
                         @ ''['' @ sq @ ''7d'' @ sq @ '', '' @ sq @ ''30d'' @ sq @ '', '' @ sq @ ''90d'' @ sq
                         @ '', '' @ sq @ ''180d'' @ sq @ '', '' @ sq @ ''1y'' @ sq @ '', '' @ sq @ ''2y'' @ sq
                         @ '']'')"
  using assms by (simp add: cmd_candles_def allowed_ranges)

text \<open>
  Claim C5 fails on the code when the limit is malformed as well: the limit is read
  before the codes are checked. The run with \<^verbatim>\<open>--tf 2h --limit abc\<close> ends in the
  traceback of \<^verbatim>\<open>int\<close> and prints no error object.
\<close>

theorem invalid_timeframe_malformed_limit:
  "map_of TF_TO_YF_INTERVAL ''2h'' = None \<and>
   cmd_candles sample_env (sample_args\<lparr>arg_tf := ''2h'', arg_limit := ''abc''\<rparr>) =
     Uncaught (''invalid literal for int() with base 10: '' @ sq @ ''abc'' @ sq) \<and>
   stdout (cmd_candles sample_env (sample_args\<lparr>arg_tf := ''2h'', arg_limit := ''abc''\<rparr>)) = []"
  by code_simp

subsection \<open>The quote fallback\<close>

text \<open>
  Claim C6, as the code has it. When the fast price is \<^verbatim>\<open>None\<close> and the daily history
  is not empty, the price printed is the latest daily close rounded to four decimal
  places.
\<close>

theorem quote_fallback_rounded_close:
  assumes "fast_last_price e (py_upper e s) = Inr None"
    and "history e (py_upper e s) (Period ''1d'' None) = Inr hist"
    and "hist \<noteq> []"
  shows "cmd_quote e s =
           Printed (JObj [(''ok'', JBool True), (''symbol'', JStr (py_upper e s)),
                          (''price'', JNum (round4 (bar_close (last hist)))),
                          (''timestampUtc'', JStr (utc_now e))])"
  using assms by (simp add: cmd_quote_def quote_body_def)

text \<open>
  The price printed is not the close itself: for the close 150.1699981689453125 (the
  single-precision value nearest to 150.17, as the provider reports it) the run prints
  150.17.
\<close>

theorem quote_fallback_counterexample:
  "fast_last_price sample_env ''AMD'' = Inr None \<and>
   history sample_env ''AMD'' (Period ''1d'' None) = Inr sample_rows \<and>
   sample_rows \<noteq> [] \<and>
   bar_close (last sample_rows) = 9841541 / 65536 \<and>
   cmd_quote sample_env ''amd'' =
     Printed (JObj [(''ok'', JBool True), (''symbol'', JStr ''AMD''),
                    (''price'', JNum (15017 / 100)),
                    (''timestampUtc'', JStr ''2023-11-15T21:00:00Z'')]) \<and>
   JNum (15017 / 100) \<noteq> JNum (bar_close (last sample_rows))"
  by code_simp

text \<open>The sample run of \<^verbatim>\<open>quote --symbol amd\<close>.\<close>

theorem quote_fallback_rounded_close_witness:
  "cmd_quote sample_env ''amd'' =
     Printed (JObj [(''ok'', JBool True), (''symbol'', JStr (py_upper sample_env ''amd'')),
                    (''price'', JNum (round4 (bar_close (last sample_rows)))),
                    (''timestampUtc'', JStr (utc_now sample_env))]) \<and>
   round4 (bar_close (last sample_rows)) = 15017 / 100"
proof -
  have h1: "fast_last_price sample_env (py_upper sample_env ''amd'') = Inr None"
    by (simp add: sample_env_def)
  have h2: "history sample_env (py_upper sample_env ''amd'') (Period ''1d'' None) = Inr sample_rows"
    by (simp add: sample_env_def)
  have h3: "sample_rows \<noteq> []"
    by (simp add: sample_rows_def)
  have r: "round4 (bar_close (last sample_rows)) = 15017 / 100"
    by code_simp
  from quote_fallback_rounded_close [OF h1 h2 h3] r show ?thesis
    by (rule conjI)
qed

section \<open>Properties of the report tool\<close>

subsection \<open>The keyword list\<close>

lemma split_from_blank: "list_all is_space s \<Longrightarrow> split_from [] s = []"
  by (induction s) simp_all

lemma py_split_blank: "list_all is_space s \<Longrightarrow> py_split s = []"
  by (simp add: py_split_def split_from_blank)

text \<open>
  Claim C10. When the provider's short name for the symbol is empty, or made of white
  space only (or the entry is missing, which reads as the empty string), taking the first
  word raises \<^verbatim>\<open>IndexError\<close> before the loop over the news starts: the worker writes
  the error text into the headlines slot and nothing else, whatever the news feed holds.
\<close>

theorem blank_short_name_error:
  assumes "ticker_news f symbol = Inr news_list"
    and "ticker_info f symbol = Inr info"
    and "list_all is_space (dict_get info ''shortName'' [])"
  shows "news_body f symbol = Inl ''list index out of range'' \<and>
         get_news_data f symbol g = g\<lparr>result_news := ''Error: list index out of range''\<rparr>"
  using assms by (simp add: news_body_def get_news_data_def py_split_blank)

text \<open>The sample feed has items that name the ticker, and the short name is one blank.\<close>

theorem blank_short_name_error_witness:
  "list_ex (is_relevant blank_name_feeds [''AMD'']) sample_news \<and>
   ticker_info blank_name_feeds ''AMD'' = Inr [(''shortName'', '' '')] \<and>
   news_body blank_name_feeds ''AMD'' = Inl ''list index out of range'' \<and>
   get_news_data blank_name_feeds ''AMD'' initial_slots =
     initial_slots\<lparr>result_news := ''Error: list index out of range''\<rparr>"
proof -
  have h1: "ticker_news blank_name_feeds ''AMD'' = Inr sample_news"
    by (simp add: blank_name_feeds_def sample_feeds_def)
  have h2: "ticker_info blank_name_feeds ''AMD'' = Inr [(''shortName'', '' '')]"
    by (simp add: blank_name_feeds_def)
  have h3: "list_all is_space (dict_get [(''shortName'', '' '')] ''shortName'' [])"
    by code_simp
  have m: "list_ex (is_relevant blank_name_feeds [''AMD'']) sample_news"
    by code_simp
  from m h2 blank_short_name_error [OF h1 h2 h3, of initial_slots] show ?thesis
    by simp
qed

subsection \<open>The RSI worker\<close>

text \<open>The worker writes the sentinel, or the last value of the indicator's series as the
  \<^verbatim>\<open>ta\<close> library computed it from a history that is not empty.\<close>

lemma rsi_worker_value:
  "result_rsi (get_rsi_data f symbol g) = Finite (- 1) \<or>
   (\<exists>hist. ticker_history f symbol (Period ''1mo'' None) = Inr hist \<and> hist \<noteq> [] \<and>
      rsi_last f (map bar_close hist) = Inr (result_rsi (get_rsi_data f symbol g)))"
  by (auto simp: get_rsi_data_def split: sum.splits)




subsection \<open>A failing news worker\<close>

text \<open>Each worker leaves the other's slots alone, so the order in which the two threads
  run does not matter.\<close>

lemma rsi_worker_frame:
  "result_news (get_rsi_data f symbol g) = result_news g"
  "result_sentiment (get_rsi_data f symbol g) = result_sentiment g"
  by (simp_all add: get_rsi_data_def split: sum.splits)

lemma news_worker_frame: "result_rsi (get_news_data f symbol g) = result_rsi g"
  by (simp add: get_news_data_def split: sum.splits prod.splits)

lemma workers_commute:
  "get_news_data f symbol (get_rsi_data f symbol g) = get_rsi_data f symbol (get_news_data f symbol g)"
  by (simp add: get_news_data_def get_rsi_data_def split: sum.splits prod.splits)

lemma fmt_2f_zero: "fmt_2f 0 = ''0.00''"
  by code_simp

lemma sent_status_zero: "sent_status 0 = ''NEUTRAL''"
  by (simp add: sent_status_def DOUBLE_TENTH_def)

text \<open>
  Claim C9. When the body of the news worker raises, the handler overwrites the headlines
  slot with the error text and nothing else: the sentiment slot still holds its initial
  0.0, and the report of the run shows the line \<^verbatim>\<open>SENTIMENT:    0.00 [NEUTRAL]\<close> above
  the error text.
\<close>

theorem news_failure_keeps_sentiment:
  assumes "news_body f (str_upper f a) = Inl x"
  shows "get_news_data f (str_upper f a) g = g\<lparr>result_news := ''Error: '' @ x\<rparr> \<and>
         result_sentiment (run_workers f (str_upper f a)) = 0 \<and>
         result_news (run_workers f (str_upper f a)) = ''Error: '' @ x \<and>
         report_main f [prog, a] =
           ([''--- TECHNICAL REPORT ('' @ str_upper f a @ '') ---'',
             ''RSI (14-day): '' @ float_fmt_2f (result_rsi (get_rsi_data f (str_upper f a) initial_slots))
               @ '' ['' @ rsi_status (result_rsi (get_rsi_data f (str_upper f a) initial_slots)) @ '']'',
             ''SENTIMENT:    0.00 [NEUTRAL]'',
             ''------------------------------'',
             ''TOP NEWS HEADLINES:'',
             ''Error: '' @ x], 0)"
proof -
  let ?s = "str_upper f a"
  have w: "get_news_data f ?s g = g\<lparr>result_news := ''Error: '' @ x\<rparr>" for g
    using assms by (simp add: get_news_data_def)
  have s: "result_sentiment (run_workers f ?s) = 0"
    by (simp add: run_workers_def w rsi_worker_frame initial_slots_def)
  have n: "result_news (run_workers f ?s) = ''Error: '' @ x"
    by (simp add: run_workers_def w)
  have r: "result_rsi (run_workers f ?s) = result_rsi (get_rsi_data f ?s initial_slots)"
    by (simp add: run_workers_def w)
  have d: "replicate 30 (CHR ''-'') = ''------------------------------''"
    by code_simp
  have l: "report_lines ?s (run_workers f ?s) =
           [''--- TECHNICAL REPORT ('' @ ?s @ '') ---'',
            ''RSI (14-day): '' @ float_fmt_2f (result_rsi (get_rsi_data f ?s initial_slots))
              @ '' ['' @ rsi_status (result_rsi (get_rsi_data f ?s initial_slots)) @ '']'',
            ''SENTIMENT:    0.00 [NEUTRAL]'',
            ''------------------------------'',
            ''TOP NEWS HEADLINES:'',
            ''Error: '' @ x]"
    unfolding report_lines_def s n r d fmt_2f_zero sent_status_zero by simp
  have m: "report_main f [prog, a] = (report_lines ?s (run_workers f ?s), 0)"
    by (simp add: report_main_def Let_def)
  from w s n m [unfolded l] show ?thesis by (intro conjI)
qed

text \<open>The run of \<^verbatim>\<open>fetch_news.py amd\<close> on the feeds with the blank short name.\<close>

theorem news_failure_keeps_sentiment_witness:
  "news_body blank_name_feeds (str_upper blank_name_feeds ''amd'') = Inl ''list index out of range'' \<and>
   result_sentiment (run_workers blank_name_feeds (str_upper blank_name_feeds ''amd'')) = 0 \<and>
   report_main blank_name_feeds [''fetch_news.py'', ''amd''] =
     ([''--- TECHNICAL REPORT (AMD) ---'',
       ''RSI (14-day): 55.00 [NEUTRAL]'',
       ''SENTIMENT:    0.00 [NEUTRAL]'',
       ''------------------------------'',
       ''TOP NEWS HEADLINES:'',
       ''Error: list index out of range''], 0)"
proof -
  have h: "news_body blank_name_feeds (str_upper blank_name_feeds ''amd'') = Inl ''list index out of range''"
    by code_simp
  have u: "str_upper blank_name_feeds ''amd'' = ''AMD''"
    by code_simp
  have v: "float_fmt_2f (result_rsi (get_rsi_data blank_name_feeds ''AMD'' initial_slots))
             = ''55.00''"
    by code_simp
  have st: "rsi_status (result_rsi (get_rsi_data blank_name_feeds ''AMD'' initial_slots))
             = ''NEUTRAL''"
    by code_simp
  note t = news_failure_keeps_sentiment [OF h, of initial_slots "''fetch_news.py''"]
  from t have s: "result_sentiment (run_workers blank_name_feeds (str_upper blank_name_feeds ''amd'')) = 0"
    by (elim conjE)
  from t have "report_main blank_name_feeds [''fetch_news.py'', ''amd''] =
           ([''--- TECHNICAL REPORT ('' @ str_upper blank_name_feeds ''amd'' @ '') ---'',
             ''RSI (14-day): '' @ float_fmt_2f (result_rsi (get_rsi_data blank_name_feeds (str_upper blank_name_feeds ''amd'') initial_slots))
               @ '' ['' @ rsi_status (result_rsi (get_rsi_data blank_name_feeds (str_upper blank_name_feeds ''amd'') initial_slots)) @ '']'',
             ''SENTIMENT:    0.00 [NEUTRAL]'',
             ''------------------------------'',
             ''TOP NEWS HEADLINES:'',
             ''Error: '' @ ''list index out of range''], 0)"
    by (elim conjE)
  then have m: "report_main blank_name_feeds [''fetch_news.py'', ''amd''] =
     ([''--- TECHNICAL REPORT (AMD) ---'',
       ''RSI (14-day): 55.00 [NEUTRAL]'',
       ''SENTIMENT:    0.00 [NEUTRAL]'',
       ''------------------------------'',
       ''TOP NEWS HEADLINES:'',
       ''Error: list index out of range''], 0)"
    by (simp add: u v st)
  from h s m show ?thesis by (intro conjI)
qed

subsection \<open>The news loop\<close>

lemma news_loop_take:
  assumes "c < 5"
  shows "news_loop f kws items (h, t, c) =
           (h @ map (headline f) (take (5 - c) (filter (is_relevant f kws) items)),
            foldl (float_add f) t
              (map (\<lambda>i. get_sentiment_score f (item_title i))
                 (take (5 - c) (filter (is_relevant f kws) items))),
            c + length (take (5 - c) (filter (is_relevant f kws) items)))"
  using assms
proof (induction items arbitrary: h t c)
  case Nil
  then show ?case by simp
next
  case (Cons item rest)
  show ?case
  proof (cases "is_relevant f kws item")
    case False
    with Cons show ?thesis by simp
  next
    case True
    show ?thesis
    proof (cases "5 \<le> c + 1")
      case stop: True
      with Cons.prems have "5 - c = Suc 0" by simp
      with True stop show ?thesis by simp
    next
      case go: False
      then have lt: "c + 1 < 5" by simp
      have "5 - c = Suc (5 - (c + 1))" using lt by simp
      with True go Cons.IH [OF lt] show ?thesis by simp
    qed
  qed
qed

lemma news_loop_first_five:
  "news_loop f kws items ([], 0, 0) =
     (map (headline f) (take 5 (filter (is_relevant f kws) items)),
      foldl (float_add f) 0
        (map (\<lambda>i. get_sentiment_score f (item_title i))
           (take 5 (filter (is_relevant f kws) items))),
      length (take 5 (filter (is_relevant f kws) items)))"
  using news_loop_take [of 0 f kws items "[]" 0] by simp

lemma is_relevant_iff:
  "is_relevant f [a, b] item \<longleftrightarrow>
     contains_ignoring_case (str_upper f) (item_title item @ '' '' @ item_summary item) a \<or>
     contains_ignoring_case (str_upper f) (item_title item @ '' '' @ item_summary item) b"
  by (simp add: is_relevant_def combined_text_def sublist_def contains_ignoring_case_def)

text \<open>For an upper-casing that works character by character, as on ASCII text: some
  stretch of the text equals \<open>k\<close> when the case of the letters is ignored.\<close>

lemma contains_ignoring_case_map:
  "contains_ignoring_case (map c) text k \<longleftrightarrow>
     (\<exists>pre m post. text = pre @ m @ post \<and> map c m = map c k)"
proof
  assume "contains_ignoring_case (map c) text k"
  then obtain ps ss where "map c text = ps @ map c k @ ss"
    by (auto simp: contains_ignoring_case_def)
  then have "\<exists>us vs. text = us @ vs \<and> ps = map c us \<and> map c k @ ss = map c vs"
    by (simp only: map_eq_append_conv)
  then obtain pre rest where t: "text = pre @ rest" and r: "map c k @ ss = map c rest"
    by (elim exE conjE)
  from r have "\<exists>us vs. rest = us @ vs \<and> map c k = map c us \<and> ss = map c vs"
    by (simp only: append_eq_map_conv)
  then obtain m post where "rest = m @ post" "map c k = map c m"
    by (elim exE conjE)
  with t have "text = pre @ m @ post \<and> map c m = map c k"
    by simp
  then show "\<exists>pre m post. text = pre @ m @ post \<and> map c m = map c k"
    by (intro exI)
next
  assume "\<exists>pre m post. text = pre @ m @ post \<and> map c m = map c k"
  then obtain pre m post where "text = pre @ m @ post" "map c m = map c k"
    by (elim exE conjE)
  then have "map c text = map c pre @ map c k @ map c post"
    by simp
  then show "contains_ignoring_case (map c) text k"
    unfolding contains_ignoring_case_def by (intro exI)
qed

text \<open>
  Claim C7. With \<open>w\<close> the first word of the company's short name, the worker collects
  the first five items of the feed that pass the test, and no more, and stores their
  headline lines and the mean of their scores. An item passes exactly when its title,
  a blank and its summary (a missing title reading \<^verbatim>\<open>No Title\<close>, a missing summary as
  empty) contain the ticker or \<open>w\<close> as a case-insensitive substring. The loop stops at
  the fifth such item: whatever follows a part of the feed that holds five of them
  changes nothing.
\<close>

theorem news_keeps_first_five_relevant:
  assumes "ticker_news f symbol = Inr news_list"
    and "ticker_info f symbol = Inr info"
    and "py_split (dict_get info ''shortName'' []) = w # ws"
  shows "\<exists>kept. kept = take 5 (filter (is_relevant f [symbol, w]) news_list) \<and>
           length kept \<le> 5 \<and>
           news_loop f [symbol, w] news_list ([], 0, 0) =
             (map (headline f) kept,
              foldl (float_add f) 0 (map (\<lambda>i. get_sentiment_score f (item_title i)) kept),
              length kept) \<and>
           get_news_data f symbol g =
             g\<lparr>result_news :=
                 join [CHR 0x0A]
                   (if kept = [] then [''No specific news found for '' @ symbol @ ''.'']
                    else map (headline f) kept),
               result_sentiment :=
                 (if kept = [] then 0
                  else float_div f
                         (foldl (float_add f) 0
                            (map (\<lambda>i. get_sentiment_score f (item_title i)) kept))
                         (of_nat (length kept)))\<rparr> \<and>
           (\<forall>item. is_relevant f [symbol, w] item \<longleftrightarrow>
              contains_ignoring_case (str_upper f)
                (item_title item @ '' '' @ item_summary item) symbol \<or>
              contains_ignoring_case (str_upper f)
                (item_title item @ '' '' @ item_summary item) w) \<and>
           (\<forall>pre rest. news_list = pre @ rest \<and>
                5 \<le> length (filter (is_relevant f [symbol, w]) pre) \<longrightarrow>
              news_loop f [symbol, w] pre ([], 0, 0) =
                news_loop f [symbol, w] news_list ([], 0, 0))"
proof -
  let ?kept = "take 5 (filter (is_relevant f [symbol, w]) news_list)"
  let ?total = "foldl (float_add f) 0 (map (\<lambda>i. get_sentiment_score f (item_title i)) ?kept)"
  have 1: "length ?kept \<le> 5"
    by simp
  have 2: "news_loop f [symbol, w] news_list ([], 0, 0) =
             (map (headline f) ?kept, ?total, length ?kept)"
    by (rule news_loop_first_five)
  have b: "news_body f symbol =
             Inr (join [CHR 0x0A]
                    (if ?kept = [] then [''No specific news found for '' @ symbol @ ''.'']
                     else map (headline f) ?kept),
                  if ?kept = [] then 0 else float_div f ?total (of_nat (length ?kept)))"
  proof (cases "?kept = []")
    case True
    then show ?thesis using assms by (simp add: news_body_def 2)
  next
    case False
    then show ?thesis using assms by (simp add: news_body_def 2)
  qed
  have 3: "get_news_data f symbol g =
             g\<lparr>result_news :=
                 join [CHR 0x0A]
                   (if ?kept = [] then [''No specific news found for '' @ symbol @ ''.'']
                    else map (headline f) ?kept),
               result_sentiment :=
                 (if ?kept = [] then 0 else float_div f ?total (of_nat (length ?kept)))\<rparr>"
    unfolding get_news_data_def b by simp
  have 4: "\<forall>item. is_relevant f [symbol, w] item \<longleftrightarrow>
              contains_ignoring_case (str_upper f)
                (item_title item @ '' '' @ item_summary item) symbol \<or>
              contains_ignoring_case (str_upper f)
                (item_title item @ '' '' @ item_summary item) w"
    by (simp add: is_relevant_iff)
  have 5: "\<forall>pre rest. news_list = pre @ rest \<and>
                5 \<le> length (filter (is_relevant f [symbol, w]) pre) \<longrightarrow>
              news_loop f [symbol, w] pre ([], 0, 0) =
                news_loop f [symbol, w] news_list ([], 0, 0)"
  proof (intro allI impI, elim conjE)
    fix pre rest
    assume "news_list = pre @ rest" "5 \<le> length (filter (is_relevant f [symbol, w]) pre)"
    then show "news_loop f [symbol, w] pre ([], 0, 0) =
                news_loop f [symbol, w] news_list ([], 0, 0)"
      by (simp add: news_loop_first_five)
  qed
  show ?thesis
    by (rule exI [of _ ?kept]) (intro conjI refl 1 2 3 4 5)
qed

text \<open>The sample feed: six of its seven items pass, the first five are kept and stored
  with the mean score 0.125, and the seventh item is never reached.\<close>

theorem news_keeps_first_five_relevant_witness:
  "py_split (dict_get [(''shortName'', ''Advanced Micro Devices, Inc.'')] ''shortName'' []) =
     [''Advanced'', ''Micro'', ''Devices,'', ''Inc.''] \<and>
   length (filter (is_relevant sample_feeds [''AMD'', ''Advanced'']) sample_news) = 6 \<and>
   length sample_news = 7 \<and>
   (\<exists>kept. kept = take 5 (filter (is_relevant sample_feeds [''AMD'', ''Advanced'']) sample_news) \<and>
      length kept = 5 \<and>
      news_loop sample_feeds [''AMD'', ''Advanced''] sample_news ([], 0, 0) =
        (map (headline sample_feeds) kept,
         foldl (float_add sample_feeds) 0
           (map (\<lambda>i. get_sentiment_score sample_feeds (item_title i)) kept),
         length kept) \<and>
      get_news_data sample_feeds ''AMD'' initial_slots =
        initial_slots\<lparr>result_news := join [CHR 0x0A] (map (headline sample_feeds) kept),
                       result_sentiment := 1 / 8\<rparr>) \<and>
   news_loop sample_feeds [''AMD'', ''Advanced''] (take 6 sample_news) ([], 0, 0) =
     news_loop sample_feeds [''AMD'', ''Advanced''] sample_news ([], 0, 0)"
proof -
  let ?rel = "is_relevant sample_feeds [''AMD'', ''Advanced'']"
  let ?score = "\<lambda>i. get_sentiment_score sample_feeds (item_title i)"
  have h1: "ticker_news sample_feeds ''AMD'' = Inr sample_news"
    by (simp add: sample_feeds_def)
  have h2: "ticker_info sample_feeds ''AMD'' = Inr [(''shortName'', ''Advanced Micro Devices, Inc.'')]"
    by (simp add: sample_feeds_def)
  have h3: "py_split (dict_get [(''shortName'', ''Advanced Micro Devices, Inc.'')] ''shortName'' []) =
     ''Advanced'' # [''Micro'', ''Devices,'', ''Inc.'']"
    by code_simp
  have n6: "length (filter ?rel sample_news) = 6"
    by code_simp
  have n7: "length sample_news = 7"
    by (simp add: sample_news_def)
  have k5: "length (take 5 (filter ?rel sample_news)) = 5"
    using n6 by simp
  have ne: "take 5 (filter ?rel sample_news) \<noteq> []"
    using k5 by auto
  have mean: "float_div sample_feeds
                (foldl (float_add sample_feeds) 0 (map ?score (take 5 (filter ?rel sample_news))))
                (of_nat (length (take 5 (filter ?rel sample_news)))) = 1 / 8"
    by code_simp
  have p: "sample_news = take 6 sample_news @ drop 6 sample_news"
    by simp
  have p5: "5 \<le> length (filter ?rel (take 6 sample_news))"
    by code_simp
  from news_keeps_first_five_relevant [OF h1 h2 h3, of initial_slots]
  obtain kept where k: "kept = take 5 (filter ?rel sample_news)"
    and l: "news_loop sample_feeds [''AMD'', ''Advanced''] sample_news ([], 0, 0) =
        (map (headline sample_feeds) kept, foldl (float_add sample_feeds) 0 (map ?score kept),
         length kept)"
    and g: "get_news_data sample_feeds ''AMD'' initial_slots =
             initial_slots\<lparr>result_news :=
                 join [CHR 0x0A]
                   (if kept = [] then [''No specific news found for '' @ ''AMD'' @ ''.'']
                    else map (headline sample_feeds) kept),
               result_sentiment :=
                 (if kept = [] then 0
                  else float_div sample_feeds (foldl (float_add sample_feeds) 0 (map ?score kept))
                         (of_nat (length kept)))\<rparr>"
    and s: "\<forall>pre rest. sample_news = pre @ rest \<and> 5 \<le> length (filter ?rel pre) \<longrightarrow>
              news_loop sample_feeds [''AMD'', ''Advanced''] pre ([], 0, 0) =
                news_loop sample_feeds [''AMD'', ''Advanced''] sample_news ([], 0, 0)"
    by (elim exE conjE)
  from s p p5 have st: "news_loop sample_feeds [''AMD'', ''Advanced''] (take 6 sample_news) ([], 0, 0) =
     news_loop sample_feeds [''AMD'', ''Advanced''] sample_news ([], 0, 0)"
    by (elim allE [of _ "take 6 sample_news"] allE [of _ "drop 6 sample_news"] impE) (intro conjI)
  have g': "get_news_data sample_feeds ''AMD'' initial_slots =
        initial_slots\<lparr>result_news := join [CHR 0x0A] (map (headline sample_feeds) kept),
                       result_sentiment := 1 / 8\<rparr>"
    using g ne mean unfolding k by simp
  have e: "\<exists>kept. kept = take 5 (filter ?rel sample_news) \<and>
      length kept = 5 \<and>
      news_loop sample_feeds [''AMD'', ''Advanced''] sample_news ([], 0, 0) =
        (map (headline sample_feeds) kept, foldl (float_add sample_feeds) 0 (map ?score kept),
         length kept) \<and>
      get_news_data sample_feeds ''AMD'' initial_slots =
        initial_slots\<lparr>result_news := join [CHR 0x0A] (map (headline sample_feeds) kept),
                       result_sentiment := 1 / 8\<rparr>"
    using k l k5 g' by (intro exI [of _ kept] conjI) simp_all
  from h3 n6 n7 e st show ?thesis
    by (intro conjI) simp_all
qed

end
